theory Spec2Isabelle
  imports Complex_Main
begin

section \<open>The request gateway of the caption client (frontend/lib/api.js)\<close>

text \<open>
  The module exports five functions: \<open>makeRequest\<close>, \<open>validateFile\<close>,
  \<open>generateCaption\<close>, \<open>batchGenerateCaptions\<close> and \<open>checkHealth\<close>. They are
  asynchronous JavaScript; the embedding makes their effects explicit:
  \<^item> the promise an \<open>async\<close> function returns is modelled by its final state
    (\<open>Fulfilled\<close>, \<open>Rejected\<close>, or \<open>Pending\<close> when an awaited promise never settles);
  \<^item> timers, abort signals and the calls handed to \<open>fetch\<close> live in a \<open>world\<close> record
    that every function takes and returns;
  \<^item> the remote service and the network are a parameter, the \<open>transport\<close>: what the
    promise of \<open>fetch\<close> and then the promise of \<open>response.json()\<close> do.
\<close>

subsection \<open>Values of the runtime\<close>

text \<open>
  A Number of the runtime is a double. The integers from \<open>-2^53\<close> to \<open>2^53\<close> are
  doubles, each distinct from its neighbours, and the model has them as they are. It
  has \<open>NaN\<close>. Every other number (one with a fraction, one of larger magnitude, an
  infinity) is given by the string that \<open>Number.prototype.toString\<close> prints for it: such
  a number is not zero, and the digit generation on doubles is not modelled. The two
  zeros of the runtime, which print alike and are both falsy, are the integer 0.
\<close>

typedef safe_integer = "{i :: int. - (2 ^ 53) \<le> i \<and> i \<le> 2 ^ 53}"
  morphisms int_of Safe
  by (rule exI [of _ 0]) simp

datatype number =
    Integer safe_integer
  | NaN
  | Other string

text \<open>
  What \<open>JSON.parse\<close> can produce. An object is the list of its own properties (keys
  distinct after parsing).
\<close>

datatype json =
    JNull
  | JBool bool
  | JNum number
  | JStr string
  | JArr "json list"
  | JObj "(string \<times> json) list"

text \<open>
  What can be thrown: an \<open>APIError\<close> (lines 8-14: message and status), or any other
  exception of the runtime, given by its \<open>name\<close> and its \<open>message\<close>.
\<close>

datatype thrown =
    APIError string nat
  | Exception string string

fun error_name :: "thrown \<Rightarrow> string" where
  "error_name (APIError message status) = ''APIError''"
| "error_name (Exception name message) = name"

fun is_APIError :: "thrown \<Rightarrow> bool" where
  "is_APIError (APIError message status) = True"
| "is_APIError (Exception name message) = False"

datatype promise =
    Fulfilled json
  | Rejected thrown
  | Pending

subsection \<open>Numbers as strings\<close>

definition digit_char :: "nat \<Rightarrow> char" where
  "digit_char d = ''0123456789'' ! d"

function decimal :: "nat \<Rightarrow> string" where
  "decimal n = (if n < 10 then [digit_char n] else decimal (n div 10) @ [digit_char (n mod 10)])"
  by pat_completeness auto
termination
  by (relation "measure id") auto

declare decimal.simps [simp del]

text \<open>
  \<open>Number.prototype.toString\<close>. An integer of magnitude at most \<open>2^53\<close> prints as its
  decimal numeral, with a minus sign when it is negative: below \<open>10^21\<close> no exponent is
  used, and no shorter numeral denotes the same double.
\<close>

fun Number_toString :: "number \<Rightarrow> string" where
  "Number_toString (Integer i) =
     (if int_of i < 0 then ''-'' @ decimal (nat (- int_of i)) else decimal (nat (int_of i)))"
| "Number_toString NaN = ''NaN''"
| "Number_toString (Other text) = text"

text \<open>Truthiness of a number: false for 0 and for \<open>NaN\<close>.\<close>

fun number_truthy :: "number \<Rightarrow> bool" where
  "number_truthy (Integer i) = (int_of i \<noteq> 0)"
| "number_truthy NaN = False"
| "number_truthy (Other text) = True"

text \<open>
  \<open>Number.prototype.toFixed(f)\<close>, as ECMAScript defines it on the exact value \<open>x\<close> of
  the number (for \<open>x\<close> below \<open>10^21\<close>): \<open>n\<close> is the integer for which \<open>n / 10^f - x\<close> is
  closest to zero, the larger one of two; its digits are padded with zeros to \<open>f + 1\<close>
  places and the point goes before the last \<open>f\<close>.
\<close>

definition toFixed :: "nat \<Rightarrow> rat \<Rightarrow> string" where
  "toFixed f x =
     (let s = (if x < 0 then ''-'' else '''');
          n = nat \<lfloor>\<bar>x\<bar> * 10 ^ f + 1 / 2\<rfloor>;
          m = (if n = 0 then ''0'' else decimal n);
          m = (if f \<noteq> 0 \<and> length m \<le> f
               then replicate (f + 1 - length m) CHR ''0'' @ m else m);
          k = length m
      in if f \<noteq> 0 then s @ take (k - f) m @ ''.'' @ drop (k - f) m else s @ m)"

subsection \<open>Strings and arrays\<close>

definition startsWith :: "string \<Rightarrow> string \<Rightarrow> bool" where
  "startsWith s p = (take (length p) s = p)"

fun join :: "string \<Rightarrow> string list \<Rightarrow> string" where
  "join sep [] = ''''"
| "join sep [x] = x"
| "join sep (x # y # ys) = x @ sep @ join sep (y # ys)"

subsection \<open>Configuration (lines 1-6)\<close>

record config =
  baseURL :: string
  timeout :: nat
  maxFileSize :: nat
  maxBatchSize :: nat

text \<open>\<open>env_url\<close> is the value of \<open>process.env.NEXT_PUBLIC_API_URL\<close> as a template
  literal prints it.\<close>

definition API_CONFIG :: "string \<Rightarrow> config" where
  "API_CONFIG env_url =
     \<lparr>baseURL = env_url, timeout = 60000, maxFileSize = 10 * 1024 * 1024, maxBatchSize = 3\<rparr>"

subsection \<open>Files, form data and requests\<close>

text \<open>
  A \<open>File\<close>: \<open>size\<close> is a non-negative integer (a byte count below \<open>2^64\<close>) and
  \<open>type\<close> a string, possibly empty. Dividing an integer by 1024 is exact in binary
  floating point, so \<open>file.size / 1024 / 1024\<close> is the rational number it denotes.
\<close>

record File =
  file_name :: string
  file_size :: nat
  file_type :: string

datatype form_value = FileValue File | StringValue string

type_synonym FormData = "(string \<times> form_value) list"

definition append :: "string \<Rightarrow> form_value \<Rightarrow> FormData \<Rightarrow> FormData" where
  "append name v formData = formData @ [(name, v)]"

text \<open>The \<open>options\<close> of \<open>makeRequest\<close>: \<open>None\<close> is a property that is not there.\<close>

record request_init =
  init_method :: "string option"
  init_body :: "FormData option"

text \<open>A call handed to \<open>fetch\<close>: the URL, the options spread into the call, and the
  abort signal it is bound to.\<close>

record fetch_call =
  call_url :: string
  call_method :: "string option"
  call_body :: "FormData option"
  call_signal :: nat

text \<open>\<open>fetch\<close> sends a call without a method as a GET.\<close>

definition http_method :: "fetch_call \<Rightarrow> string" where
  "http_method c = (case call_method c of None \<Rightarrow> ''GET'' | Some m \<Rightarrow> m)"

subsection \<open>Timers, abort controllers and the network\<close>

text \<open>
  A timer is armed with a delay and the controller its callback aborts (line 18), has
  fired after its delay, or was cleared. A timer's id and a controller are their index
  in the world's lists.
\<close>

datatype timer = Armed nat nat | Fired nat | Cleared

record world =
  timers :: "timer list"
  signals :: "bool list"
  network :: "fetch_call list"

definition new_AbortController :: "world \<Rightarrow> nat \<times> world" where
  "new_AbortController w = (length (signals w), w\<lparr>signals := signals w @ [False]\<rparr>)"

definition abort :: "nat \<Rightarrow> world \<Rightarrow> world" where
  "abort controller w = w\<lparr>signals := (signals w)[controller := True]\<rparr>"

definition aborted :: "nat \<Rightarrow> world \<Rightarrow> bool" where
  "aborted controller w = (controller < length (signals w) \<and> signals w ! controller)"

definition setTimeout :: "nat \<Rightarrow> nat \<Rightarrow> world \<Rightarrow> nat \<times> world" where
  "setTimeout controller delay w =
     (length (timers w), w\<lparr>timers := timers w @ [Armed delay controller]\<rparr>)"

definition armed :: "nat \<Rightarrow> world \<Rightarrow> bool" where
  "armed timeoutId w =
     (timeoutId < length (timers w) \<and>
      (case timers w ! timeoutId of Armed delay controller \<Rightarrow> True | _ \<Rightarrow> False))"

definition clearTimeout :: "nat \<Rightarrow> world \<Rightarrow> world" where
  "clearTimeout timeoutId w =
     (if armed timeoutId w then w\<lparr>timers := (timers w)[timeoutId := Cleared]\<rparr> else w)"

text \<open>The timer's delay passes: an armed timer fires and runs its callback.\<close>

definition expire :: "nat \<Rightarrow> world \<Rightarrow> world" where
  "expire timeoutId w =
     (if timeoutId < length (timers w) then
        (case timers w ! timeoutId of
           Armed delay controller \<Rightarrow>
             abort controller (w\<lparr>timers := (timers w)[timeoutId := Fired delay]\<rparr>)
         | _ \<Rightarrow> w)
      else w)"

definition fetch :: "string \<Rightarrow> request_init \<Rightarrow> nat \<Rightarrow> world \<Rightarrow> world" where
  "fetch url options signal w =
     w\<lparr>network := network w @
        [\<lparr>call_url = url, call_method = init_method options,
          call_body = init_body options, call_signal = signal\<rparr>]\<rparr>"

subsection \<open>The transport\<close>

text \<open>
  What \<open>response.json()\<close> does: it resolves to the decoded body, rejects with an
  exception of some name and message (a \<open>SyntaxError\<close> for a body that is not JSON, a
  \<open>TypeError\<close> for a failed read), or never settles.
\<close>

datatype body_outcome = Decoded json | BodyError string string | BodyHangs

record response =
  status :: nat
  body :: body_outcome

text \<open>\<open>response.ok\<close>: the status is in the range 200-299.\<close>

definition ok :: "response \<Rightarrow> bool" where
  "ok r = (200 \<le> status r \<and> status r \<le> 299)"

text \<open>
  The race between the timer and the promise of \<open>fetch\<close> is decided by the transport.
  Before the timer's delay has passed the promise resolves to a response, or rejects
  with an exception of some name and message (a \<open>TypeError\<close> for a network fault); or
  it is still pending when the timer fires (\<open>Stalls\<close>). A pending call rejects with the
  \<open>abort_reason\<close> once the signal it is bound to is aborted.
\<close>

datatype transport = Responds response | FetchRejects string string | Stalls

definition abort_reason :: thrown where
  "abort_reason = Exception ''AbortError'' ''signal is aborted without reason''"

subsection \<open>The error body of a failed response (lines 29-33)\<close>

text \<open>
  \<open>errorData.detail\<close>: reading a property of \<open>null\<close> throws a \<open>TypeError\<close>; an object
  gives its own property, or \<open>undefined\<close> (\<open>None\<close>); every other value has no such
  property.
\<close>

fun detail :: "json \<Rightarrow> thrown + json option" where
  "detail JNull =
     Inl (Exception ''TypeError'' ''Cannot read properties of null'')"
| "detail (JObj props) = Inr (map_of props ''detail'')"
| "detail v = Inr None"

text \<open>Truthiness, as \<open>||\<close> and \<open>if\<close> test it.\<close>

fun truthy :: "json \<Rightarrow> bool" where
  "truthy JNull = False"
| "truthy (JBool b) = b"
| "truthy (JNum n) = number_truthy n"
| "truthy (JStr s) = (s \<noteq> '''')"
| "truthy (JArr xs) = True"
| "truthy (JObj props) = True"

text \<open>
  \<open>ToString\<close>, which the \<open>Error\<close> constructor applies to the message (line 10). An
  array joins its elements with a comma, \<open>null\<close> elements as the empty string. An
  object prints as \<open>[object Object]\<close>, unless it has an own property \<open>toString\<close>: that
  is not a function, and the conversion throws a \<open>TypeError\<close>.
\<close>

fun first_error :: "(thrown + string) list \<Rightarrow> thrown + string list" where
  "first_error [] = Inr []"
| "first_error (Inl e # rs) = Inl e"
| "first_error (Inr s # rs) = (case first_error rs of Inl e \<Rightarrow> Inl e | Inr ss \<Rightarrow> Inr (s # ss))"

fun ToString :: "json \<Rightarrow> thrown + string" where
  "ToString JNull = Inr ''null''"
| "ToString (JBool b) = Inr (if b then ''true'' else ''false'')"
| "ToString (JNum n) = Inr (Number_toString n)"
| "ToString (JStr s) = Inr s"
| "ToString (JArr xs) =
     (case first_error (map (\<lambda>x. if x = JNull then Inr '''' else ToString x) xs) of
        Inl e \<Rightarrow> Inl e
      | Inr ss \<Rightarrow> Inr (join '','' ss))"
| "ToString (JObj props) =
     (if ''toString'' \<in> set (map fst props)
      then Inl (Exception ''TypeError'' ''Cannot convert object to primitive value'')
      else Inr ''[object Object]'')"

text \<open>\<open>new APIError(message, status)\<close>: the message converted to a string, or the
  conversion's exception.\<close>

definition new_APIError :: "json \<Rightarrow> nat \<Rightarrow> thrown" where
  "new_APIError message code =
     (case ToString message of Inl e \<Rightarrow> e | Inr m \<Rightarrow> APIError m code)"

subsection \<open>makeRequest (lines 16-44)\<close>

text \<open>
  Lines 28-36, once the response is there: the promise state is what the \<open>try\<close> block
  comes to, \<open>Rejected\<close> being an exception thrown inside it. The \<open>catch\<close> on line 29
  replaces any rejection of \<open>response.json()\<close> by the empty object.
\<close>

definition on_response :: "response \<Rightarrow> promise" where
  "on_response r =
     (if \<not> ok r then
        (case body r of
           BodyHangs \<Rightarrow> Pending
         | _ \<Rightarrow>
           (let errorData = (case body r of Decoded v \<Rightarrow> v | _ \<Rightarrow> JObj []) in
            case detail errorData of
              Inl e \<Rightarrow> Rejected e
            | Inr d \<Rightarrow>
                Rejected (new_APIError
                  (case d of
                     Some v \<Rightarrow> if truthy v then v else JStr (''HTTP '' @ decimal (status r))
                   | None \<Rightarrow> JStr (''HTTP '' @ decimal (status r)))
                  (status r))))
      else
        (case body r of
           Decoded v \<Rightarrow> Fulfilled v
         | BodyError name message \<Rightarrow> Rejected (Exception name message)
         | BodyHangs \<Rightarrow> Pending))"

text \<open>Lines 37-43.\<close>

definition catch_block :: "nat \<Rightarrow> thrown \<Rightarrow> world \<Rightarrow> promise \<times> world" where
  "catch_block timeoutId error w =
     (let w' = clearTimeout timeoutId w in
      if error_name error = ''AbortError''
      then (Rejected (APIError ''Request timeout'' 408), w')
      else (Rejected error, w'))"

definition makeRequest ::
  "string \<Rightarrow> string \<Rightarrow> request_init \<Rightarrow> transport \<Rightarrow> world \<Rightarrow> promise \<times> world" where
  "makeRequest env_url url options tr w0 =
     (let (controller, w1) = new_AbortController w0;
          (timeoutId, w2) = setTimeout controller (timeout (API_CONFIG env_url)) w1;
          w3 = fetch (baseURL (API_CONFIG env_url) @ url) options controller w2
      in case tr of
           Responds r \<Rightarrow>
             (let w4 = clearTimeout timeoutId w3 in
              case on_response r of
                Fulfilled v \<Rightarrow> (Fulfilled v, w4)
              | Rejected error \<Rightarrow> catch_block timeoutId error w4
              | Pending \<Rightarrow> (Pending, w4))
         | FetchRejects name message \<Rightarrow> catch_block timeoutId (Exception name message) w3
         | Stalls \<Rightarrow>
             (let w4 = expire timeoutId w3 in
              if aborted controller w4 then catch_block timeoutId abort_reason w4
              else (Pending, w4)))"

subsection \<open>validateFile (lines 46-58)\<close>

definition validateFile :: "string \<Rightarrow> File \<Rightarrow> string list" where
  "validateFile env_url f =
     (let errors = [];
          errors =
            (if file_size f > maxFileSize (API_CONFIG env_url)
             then errors @
               [''File too large ('' @ toFixed 2 (of_nat (file_size f) / 1024 / 1024) @
                ''MB). Max: 10MB'']
             else errors);
          errors =
            (if \<not> startsWith (file_type f) ''image/''
             then errors @ [''File must be an image'']
             else errors)
      in errors)"

subsection \<open>generateCaption (lines 60-76)\<close>

text \<open>
  The \<open>options\<close> of \<open>generateCaption\<close>; \<open>None\<close> is an option that is not supplied.
  The method is a string and the beam width a number, the types the upload form passes;
  \<open>if (x)\<close> on lines 69 and 70 is false for the empty string, for 0 and for \<open>NaN\<close>.
\<close>

record caption_options =
  opt_method :: "string option"
  opt_beamWidth :: "number option"

definition generateCaption ::
  "string \<Rightarrow> File \<Rightarrow> caption_options \<Rightarrow> transport \<Rightarrow> world \<Rightarrow> promise \<times> world" where
  "generateCaption env_url f options tr w =
     (let validationErrors = validateFile env_url f in
      if length validationErrors > 0
      then (Rejected (APIError (join '', '' validationErrors) 400), w)
      else
        (let formData = [];
             formData = append ''file'' (FileValue f) formData;
             formData =
               (case opt_method options of
                  Some m \<Rightarrow> if m \<noteq> '''' then append ''method'' (StringValue m) formData
                            else formData
                | None \<Rightarrow> formData);
             formData =
               (case opt_beamWidth options of
                  Some b \<Rightarrow> if number_truthy b
                            then append ''beam_width'' (StringValue (Number_toString b)) formData
                            else formData
                | None \<Rightarrow> formData)
         in makeRequest env_url ''/generate-caption''
              \<lparr>init_method = Some ''POST'', init_body = Some formData\<rparr> tr w))"

subsection \<open>batchGenerateCaptions (lines 78-90)\<close>

definition batchGenerateCaptions ::
  "string \<Rightarrow> File list \<Rightarrow> transport \<Rightarrow> world \<Rightarrow> promise \<times> world" where
  "batchGenerateCaptions env_url files tr w =
     (if length files > maxBatchSize (API_CONFIG env_url)
      then (Rejected (APIError
              (''Max '' @ decimal (maxBatchSize (API_CONFIG env_url)) @ '' files allowed'') 400), w)
      else
        (let formData = foldl (\<lambda>fd f. append ''files'' (FileValue f) fd) [] files
         in makeRequest env_url ''/batch-generate''
              \<lparr>init_method = Some ''POST'', init_body = Some formData\<rparr> tr w))"

subsection \<open>checkHealth (lines 92-94)\<close>

definition checkHealth :: "string \<Rightarrow> transport \<Rightarrow> world \<Rightarrow> promise \<times> world" where
  "checkHealth env_url tr w =
     makeRequest env_url ''/health'' \<lparr>init_method = None, init_body = None\<rparr> tr w"

subsection \<open>Auxiliary notions for the statements\<close>

text \<open>The world after lines 17-24 of \<open>makeRequest\<close>: a new controller, a timer armed
  with the timeout, and the call handed to \<open>fetch\<close>.\<close>

definition started :: "string \<Rightarrow> string \<Rightarrow> request_init \<Rightarrow> world \<Rightarrow> world" where
  "started env_url url options w =
     \<lparr>timers = timers w @ [Armed 60000 (length (signals w))],
      signals = signals w @ [False],
      network = network w @
        [\<lparr>call_url = env_url @ url, call_method = init_method options,
          call_body = init_body options, call_signal = length (signals w)\<rparr>]\<rparr>"

text \<open>
  The body of a failed response is one lines 29-33 make an \<open>APIError\<close> of: it is not
  the JSON value \<open>null\<close>, and a truthy \<open>detail\<close> converts to a string. A body that does
  not parse is such a body, by the \<open>catch\<close> on line 29.
\<close>

definition detail_converts :: "body_outcome \<Rightarrow> bool" where
  "detail_converts b =
     (case b of
        Decoded v \<Rightarrow>
          (case detail v of
             Inl e \<Rightarrow> False
           | Inr None \<Rightarrow> True
           | Inr (Some d) \<Rightarrow>
               (if truthy d then (case ToString d of Inl e \<Rightarrow> False | Inr m \<Rightarrow> True)
                else True))
      | _ \<Rightarrow> True)"

section \<open>Decimal numerals\<close>

lemma decimal_small: "n < 10 \<Longrightarrow> decimal n = [digit_char n]"
  by (simp add: decimal.simps)

lemma decimal_step: "10 \<le> n \<Longrightarrow> decimal n = decimal (n div 10) @ [digit_char (n mod 10)]"
  by (subst decimal.simps) simp

lemma decimal_3: "decimal 3 = ''3''"
  by (simp add: decimal_small digit_char_def)

lemma decimal_two_places:
  assumes "100 \<le> n"
  shows "decimal n = decimal (n div 100) @ [digit_char (n div 10 mod 10), digit_char (n mod 10)]"
proof -
  have a: "decimal n = decimal (n div 10) @ [digit_char (n mod 10)]"
    using assms by (simp add: decimal_step)
  have "10 \<le> n div 10" using assms by simp
  then have b: "decimal (n div 10) = decimal (n div 10 div 10) @ [digit_char (n div 10 mod 10)]"
    by (rule decimal_step)
  have c: "n div 10 div 10 = n div 100" by (simp add: div_mult2_eq)
  show ?thesis using a b c by simp
qed

lemma decimal_nonempty: "decimal n \<noteq> []"
  by (subst decimal.simps) simp

lemma toFixed_two_places:
  assumes "0 \<le> x" and "100 \<le> nat \<lfloor>x * 100 + 1 / 2\<rfloor>"
  shows "toFixed 2 x =
    decimal (nat \<lfloor>x * 100 + 1 / 2\<rfloor> div 100) @ ''.'' @
      [digit_char (nat \<lfloor>x * 100 + 1 / 2\<rfloor> div 10 mod 10),
       digit_char (nat \<lfloor>x * 100 + 1 / 2\<rfloor> mod 10)]"
proof -
  define n where "n = nat \<lfloor>x * 100 + 1 / 2\<rfloor>"
  have n: "nat \<lfloor>\<bar>x\<bar> * 10 ^ 2 + 1 / 2\<rfloor> = n" using assms(1) by (simp add: n_def)
  have n100: "100 \<le> n" using assms(2) by (simp add: n_def)
  then have n0: "n \<noteq> 0" by simp
  have d: "decimal n = decimal (n div 100) @ [digit_char (n div 10 mod 10), digit_char (n mod 10)]"
    using n100 by (rule decimal_two_places)
  have l: "length (decimal n) = length (decimal (n div 100)) + 2" by (subst d) simp
  then have l2: "\<not> length (decimal n) \<le> 2" using decimal_nonempty [of "n div 100"] by simp
  have x0: "\<not> x < 0" using assms(1) by simp
  have "toFixed 2 x = take (length (decimal n) - 2) (decimal n) @ ''.'' @ drop (length (decimal n) - 2) (decimal n)"
    unfolding toFixed_def n using n0 l2 x0 by (simp add: Let_def)
  also have "\<dots> = decimal (n div 100) @ ''.'' @ [digit_char (n div 10 mod 10), digit_char (n mod 10)]"
    unfolding l by (subst (1 2) d) simp
  finally show ?thesis unfolding n_def .
qed

lemma nearest_hundredth:
  fixes x :: rat
  assumes "0 \<le> x"
  shows "\<bar>of_nat (nat \<lfloor>x * 100 + 1 / 2\<rfloor>) / 100 - x\<bar> \<le> 1 / 200"
proof -
  define k where "k = \<lfloor>x * 100 + 1 / 2\<rfloor>"
  have "0 \<le> k" using assms by (simp add: k_def)
  then have e: "(of_nat (nat k) :: rat) = of_int k" by simp
  have "of_int k \<le> x * 100 + 1 / 2" "x * 100 + 1 / 2 < of_int k + 1"
    unfolding k_def by linarith+
  then have "\<bar>of_int k / 100 - x\<bar> \<le> 1 / 200" by linarith
  then show ?thesis unfolding k_def [symmetric] e .
qed

section \<open>The executor, case by case\<close>

lemma API_CONFIG_simps:
  "baseURL (API_CONFIG env_url) = env_url"
  "timeout (API_CONFIG env_url) = 60000"
  "maxFileSize (API_CONFIG env_url) = 10485760"
  "maxBatchSize (API_CONFIG env_url) = 3"
  by (simp_all add: API_CONFIG_def)

lemma catch_block_fst:
  "fst (catch_block timeoutId error w) =
     (if error_name error = ''AbortError'' then Rejected (APIError ''Request timeout'' 408)
      else Rejected error)"
  by (simp add: catch_block_def Let_def)

lemma catch_block_snd: "snd (catch_block timeoutId error w) = clearTimeout timeoutId w"
  by (simp add: catch_block_def Let_def)

lemma clearTimeout_started:
  "clearTimeout (length (timers w)) (started env_url url options w) =
     (started env_url url options w)\<lparr>timers := timers w @ [Cleared]\<rparr>"
  by (simp add: clearTimeout_def armed_def started_def)

lemma clearTimeout_cleared:
  "clearTimeout (length (timers w))
     ((started env_url url options w)\<lparr>timers := timers w @ [Cleared]\<rparr>) =
   (started env_url url options w)\<lparr>timers := timers w @ [Cleared]\<rparr>"
  by (simp add: clearTimeout_def armed_def started_def)

lemma expire_started:
  "expire (length (timers w)) (started env_url url options w) =
     (started env_url url options w)
       \<lparr>timers := timers w @ [Fired 60000], signals := signals w @ [True]\<rparr>"
  by (simp add: expire_def abort_def started_def)

lemma clearTimeout_fired:
  "clearTimeout (length (timers w))
     ((started env_url url options w)
        \<lparr>timers := timers w @ [Fired 60000], signals := signals w @ [True]\<rparr>) =
   (started env_url url options w)
     \<lparr>timers := timers w @ [Fired 60000], signals := signals w @ [True]\<rparr>"
  by (simp add: clearTimeout_def armed_def started_def)

lemma makeRequest_unfold:
  "makeRequest env_url url options tr w =
     (case tr of
        Responds r \<Rightarrow>
          (case on_response r of
             Fulfilled v \<Rightarrow>
               (Fulfilled v, clearTimeout (length (timers w)) (started env_url url options w))
           | Rejected error \<Rightarrow>
               catch_block (length (timers w)) error
                 (clearTimeout (length (timers w)) (started env_url url options w))
           | Pending \<Rightarrow>
               (Pending, clearTimeout (length (timers w)) (started env_url url options w)))
      | FetchRejects name message \<Rightarrow>
          catch_block (length (timers w)) (Exception name message)
            (started env_url url options w)
      | Stalls \<Rightarrow>
          catch_block (length (timers w)) abort_reason
            (expire (length (timers w)) (started env_url url options w)))"
  by (cases w)
    (simp add: makeRequest_def new_AbortController_def setTimeout_def fetch_def started_def
      API_CONFIG_simps Let_def expire_def abort_def aborted_def nth_append
      split: transport.split promise.split)

lemma makeRequest_snd:
  "snd (makeRequest env_url url options tr w) =
     (started env_url url options w)
       \<lparr>timers := timers w @ [case tr of Stalls \<Rightarrow> Fired 60000 | _ \<Rightarrow> Cleared],
        signals := signals w @ [case tr of Stalls \<Rightarrow> True | _ \<Rightarrow> False]\<rparr>"
proof (cases tr)
  case (Responds r)
  then show ?thesis
    by (cases "on_response r")
      (simp_all add: makeRequest_unfold catch_block_snd clearTimeout_started
        clearTimeout_cleared, simp_all add: started_def)
next
  case (FetchRejects name message)
  then show ?thesis
    by (simp add: makeRequest_unfold catch_block_snd clearTimeout_started, simp add: started_def)
next
  case Stalls
  then show ?thesis
    by (simp add: makeRequest_unfold catch_block_snd expire_started clearTimeout_fired)
qed

lemma makeRequest_Stalls:
  "fst (makeRequest env_url url options Stalls w) = Rejected (APIError ''Request timeout'' 408)"
  by (simp add: makeRequest_unfold catch_block_fst abort_reason_def)

lemma makeRequest_FetchRejects:
  "fst (makeRequest env_url url options (FetchRejects name message) w) =
     (if name = ''AbortError'' then Rejected (APIError ''Request timeout'' 408)
      else Rejected (Exception name message))"
  by (simp add: makeRequest_unfold catch_block_fst)

lemma makeRequest_Responds:
  "fst (makeRequest env_url url options (Responds r) w) =
     (case on_response r of
        Fulfilled v \<Rightarrow> Fulfilled v
      | Rejected error \<Rightarrow>
          if error_name error = ''AbortError'' then Rejected (APIError ''Request timeout'' 408)
          else Rejected error
      | Pending \<Rightarrow> Pending)"
  by (simp add: makeRequest_unfold catch_block_fst split: promise.split)

lemma makeRequest_network:
  "network (snd (makeRequest env_url url options tr w)) =
     network w @
       [\<lparr>call_url = env_url @ url, call_method = init_method options,
         call_body = init_body options, call_signal = length (signals w)\<rparr>]"
  by (simp add: makeRequest_snd started_def)

lemma makeRequest_timers:
  "timers (snd (makeRequest env_url url options tr w)) =
     timers w @ [case tr of Stalls \<Rightarrow> Fired 60000 | _ \<Rightarrow> Cleared]"
  by (simp add: makeRequest_snd)

lemma makeRequest_signals:
  "signals (snd (makeRequest env_url url options tr w)) =
     signals w @ [case tr of Stalls \<Rightarrow> True | _ \<Rightarrow> False]"
  by (simp add: makeRequest_snd)

section \<open>The response, case by case\<close>

lemma first_error_Inl: "first_error rs = Inl e \<Longrightarrow> Inl e \<in> set rs"
  by (induction rs rule: first_error.induct) (auto split: sum.splits)

lemma ToString_throws: "ToString v = Inl e \<Longrightarrow> \<exists>m. e = Exception ''TypeError'' m"
proof (induction v arbitrary: e rule: ToString.induct)
  case (5 xs)
  from "5.prems" obtain x where "x \<in> set xs" "x \<noteq> JNull" "ToString x = Inl e"
    by (auto split: sum.splits dest!: first_error_Inl split: if_splits)
  then show ?case using "5.IH" by blast
qed (auto split: if_splits)

lemma new_APIError_cases:
  "(\<exists>m. new_APIError v code = APIError m code \<and> ToString v = Inr m) \<or>
   (\<exists>m. new_APIError v code = Exception ''TypeError'' m \<and> ToString v = Inl (Exception ''TypeError'' m))"
  by (cases "ToString v") (auto simp: new_APIError_def dest: ToString_throws)

lemma new_APIError_JStr: "new_APIError (JStr m) code = APIError m code"
  by (simp add: new_APIError_def)

lemma on_response_ok:
  "ok r \<Longrightarrow> on_response r =
     (case body r of
        Decoded v \<Rightarrow> Fulfilled v
      | BodyError name message \<Rightarrow> Rejected (Exception name message)
      | BodyHangs \<Rightarrow> Pending)"
  by (simp add: on_response_def)

lemma on_response_unparsed:
  "\<not> ok r \<Longrightarrow> body r = BodyError name message \<Longrightarrow>
   on_response r = Rejected (APIError (''HTTP '' @ decimal (status r)) (status r))"
  by (simp add: on_response_def new_APIError_JStr)

lemma on_response_hangs: "body r = BodyHangs \<Longrightarrow> on_response r = Pending"
  by (simp add: on_response_def)

lemma on_response_decoded:
  "\<not> ok r \<Longrightarrow> body r = Decoded b \<Longrightarrow>
   on_response r =
     (case detail b of
        Inl e \<Rightarrow> Rejected e
      | Inr None \<Rightarrow> Rejected (APIError (''HTTP '' @ decimal (status r)) (status r))
      | Inr (Some d) \<Rightarrow>
          if truthy d then Rejected (new_APIError d (status r))
          else Rejected (APIError (''HTTP '' @ decimal (status r)) (status r)))"
  by (simp add: on_response_def new_APIError_JStr split: sum.split option.split)

lemma detail_throws: "detail b = Inl e \<Longrightarrow> \<exists>m. e = Exception ''TypeError'' m"
  by (cases b) auto

lemma on_response_failed:
  assumes "\<not> ok r" and "on_response r = Rejected e"
  shows "(\<exists>m. e = APIError m (status r)) \<or> (\<exists>m. e = Exception ''TypeError'' m)"
proof (cases "body r")
  case (Decoded b)
  show ?thesis
  proof (cases "detail b")
    case (Inl e')
    then show ?thesis using assms Decoded detail_throws [of b e']
      by (simp add: on_response_decoded)
  next
    case (Inr d)
    then show ?thesis using assms Decoded new_APIError_cases [of "the d" "status r"]
      by (cases d) (auto simp: on_response_decoded split: if_splits)
  qed
next
  case (BodyError name message)
  then show ?thesis using assms by (auto simp add: on_response_unparsed)
next
  case BodyHangs
  then show ?thesis using assms by (simp add: on_response_hangs)
qed

lemma on_response_converts:
  assumes "\<not> ok r" and "detail_converts (body r)" and "on_response r = Rejected e"
  shows "\<exists>m. e = APIError m (status r)"
proof (cases "body r")
  case (Decoded b)
  then show ?thesis using assms
    by (auto simp: on_response_decoded detail_converts_def new_APIError_def
        split: sum.splits option.splits if_splits)
next
  case (BodyError name message)
  then show ?thesis using assms by (auto simp add: on_response_unparsed)
next
  case BodyHangs
  then show ?thesis using assms by (simp add: on_response_hangs)
qed

section \<open>The public operations\<close>

lemma files_formData:
  "foldl (\<lambda>fd f. append ''files'' (FileValue f) fd) acc files =
     acc @ map (\<lambda>f. (''files'', FileValue f)) files"
  by (induction files arbitrary: acc) (simp_all add: append_def)

lemma batchGenerateCaptions_too_many:
  "3 < length files \<Longrightarrow>
   batchGenerateCaptions env_url files tr w =
     (Rejected (APIError ''Max 3 files allowed'' 400), w)"
  by (simp add: batchGenerateCaptions_def API_CONFIG_simps decimal_3)

lemma batchGenerateCaptions_submits:
  "length files \<le> 3 \<Longrightarrow>
   batchGenerateCaptions env_url files tr w =
     makeRequest env_url ''/batch-generate''
       \<lparr>init_method = Some ''POST'',
        init_body = Some (map (\<lambda>f. (''files'', FileValue f)) files)\<rparr> tr w"
  by (simp add: batchGenerateCaptions_def API_CONFIG_simps files_formData)

lemma makeRequest_fst_independent:
  "fst (makeRequest env_url url options tr w) = fst (makeRequest env_url' url' options' tr w')"
  by (cases tr) (simp_all add: makeRequest_Stalls makeRequest_FetchRejects makeRequest_Responds)

text \<open>
  C8. On every path through \<open>makeRequest\<close>, whatever the transport does (a
  response, a rejection, no answer before the timer fires) and whatever the response
  holds, the timer that the call armed is not armed any more when the call is over: it
  was cleared, or it has fired. The timers of other calls are left as they were.
\<close>

theorem C8_timer_not_left_armed:
  "timers (snd (makeRequest env_url url options tr w)) =
     timers w @ [case tr of Stalls \<Rightarrow> Fired 60000 | _ \<Rightarrow> Cleared] \<and>
   \<not> armed (length (timers w)) (snd (makeRequest env_url url options tr w))"
  by (cases tr) (simp_all add: makeRequest_timers armed_def)

theorem C8_timer_not_left_armed_witness:
  "timers (snd (makeRequest ''http://localhost:8000'' ''/health''
       \<lparr>init_method = None, init_body = None\<rparr>
       (FetchRejects ''TypeError'' ''Failed to fetch'')
       \<lparr>timers = [Armed 60000 0], signals = [False], network = []\<rparr>)) =
     [Armed 60000 0, Cleared]"
  using C8_timer_not_left_armed [of "''http://localhost:8000''" "''/health''"
      "\<lparr>init_method = None, init_body = None\<rparr>"
      "FetchRejects ''TypeError'' ''Failed to fetch''"
      "\<lparr>timers = [Armed 60000 0], signals = [False], network = []\<rparr>"]
  by simp

text \<open>
  C10. A batch of no files passes the cardinality check: the call is not refused
  with the validation error, the form data has no entry, and the POST to the batch
  path is handed to \<open>fetch\<close>.
\<close>

theorem C10_empty_batch_submitted:
  "batchGenerateCaptions env_url [] tr w =
     makeRequest env_url ''/batch-generate''
       \<lparr>init_method = Some ''POST'', init_body = Some []\<rparr> tr w \<and>
   network (snd (batchGenerateCaptions env_url [] tr w)) =
     network w @
       [\<lparr>call_url = env_url @ ''/batch-generate'', call_method = Some ''POST'',
         call_body = Some [], call_signal = length (signals w)\<rparr>] \<and>
   batchGenerateCaptions env_url [] tr w \<noteq>
     (Rejected (APIError ''Max 3 files allowed'' 400), w)"
proof -
  have a: "batchGenerateCaptions env_url [] tr w =
     makeRequest env_url ''/batch-generate''
       \<lparr>init_method = Some ''POST'', init_body = Some []\<rparr> tr w"
    using batchGenerateCaptions_submits [of "[]" env_url tr w] by simp
  have b: "network (snd (batchGenerateCaptions env_url [] tr w)) =
     network w @
       [\<lparr>call_url = env_url @ ''/batch-generate'', call_method = Some ''POST'',
         call_body = Some [], call_signal = length (signals w)\<rparr>]"
    unfolding a by (simp add: makeRequest_network)
  have "network (snd (batchGenerateCaptions env_url [] tr w)) \<noteq> network w"
    unfolding b by simp
  then have c: "batchGenerateCaptions env_url [] tr w \<noteq>
     (Rejected (APIError ''Max 3 files allowed'' 400), w)"
    by auto
  show ?thesis using a b c by simp
qed

theorem C10_empty_batch_submitted_witness:
  "network (snd (batchGenerateCaptions ''http://localhost:8000'' [] Stalls
       \<lparr>timers = [], signals = [], network = []\<rparr>)) =
     [\<lparr>call_url = ''http://localhost:8000/batch-generate'', call_method = Some ''POST'',
       call_body = Some [], call_signal = 0\<rparr>]"
  using C10_empty_batch_submitted [of "''http://localhost:8000''" Stalls
      "\<lparr>timers = [], signals = [], network = []\<rparr>", THEN conjunct2, THEN conjunct1]
  by simp

text \<open>
  C9. \<open>checkHealth\<close> hands exactly one call to \<open>fetch\<close>, whatever the world and the
  transport: no method (so a GET) and no body, to the base URL followed by \<open>/health\<close>.
  No check comes before it. When the response has a 2xx status and its body decodes, the
  operation resolves to the decoded value as it is.
\<close>

theorem C9_checkHealth:
  "network (snd (checkHealth env_url tr w)) =
     network w @
       [\<lparr>call_url = env_url @ ''/health'', call_method = None, call_body = None,
         call_signal = length (signals w)\<rparr>] \<and>
   http_method (last (network (snd (checkHealth env_url tr w)))) = ''GET'' \<and>
   (ok r \<longrightarrow> body r = Decoded v \<longrightarrow> fst (checkHealth env_url (Responds r) w) = Fulfilled v)"
  by (simp add: checkHealth_def makeRequest_network makeRequest_Responds on_response_ok
      http_method_def)

theorem C9_checkHealth_witness:
  "ok \<lparr>status = 200, body = Decoded (JObj [(''status'', JStr ''ok'')])\<rparr> \<and>
   fst (checkHealth ''http://localhost:8000''
          (Responds \<lparr>status = 200, body = Decoded (JObj [(''status'', JStr ''ok'')])\<rparr>)
          \<lparr>timers = [], signals = [], network = []\<rparr>) =
     Fulfilled (JObj [(''status'', JStr ''ok'')])"
proof -
  have h: "ok \<lparr>status = 200, body = Decoded (JObj [(''status'', JStr ''ok'')])\<rparr>"
    by (simp add: ok_def)
  show ?thesis
    using h C9_checkHealth [of "''http://localhost:8000''" Stalls
        "\<lparr>timers = [], signals = [], network = []\<rparr>"
        "\<lparr>status = 200, body = Decoded (JObj [(''status'', JStr ''ok'')])\<rparr>"
        "JObj [(''status'', JStr ''ok'')]"]
    by simp
qed

text \<open>
  C4. A batch of more than 3 files is refused with the \<open>APIError\<close> of message
  \<open>Max 3 files allowed\<close> and status 400, and the world is left as it was: no timer, no
  call to \<open>fetch\<close>. A batch of at most 3 files is handed to \<open>fetch\<close> as it is, each
  file under the field \<open>files\<close>, and what the operation settles to does not depend on
  the files: two batches of at most 3 files settle alike on the same transport.
\<close>

theorem C4_batch_cardinality:
  "(3 < length files \<longrightarrow>
      batchGenerateCaptions env_url files tr w =
        (Rejected (APIError ''Max 3 files allowed'' 400), w)) \<and>
   (length files \<le> 3 \<longrightarrow>
      network (snd (batchGenerateCaptions env_url files tr w)) =
        network w @
          [\<lparr>call_url = env_url @ ''/batch-generate'', call_method = Some ''POST'',
            call_body = Some (map (\<lambda>f. (''files'', FileValue f)) files),
            call_signal = length (signals w)\<rparr>] \<and>
      (length files' \<le> 3 \<longrightarrow>
         fst (batchGenerateCaptions env_url files tr w) =
         fst (batchGenerateCaptions env_url files' tr w)))"
proof (intro conjI impI)
  assume "3 < length files"
  then show "batchGenerateCaptions env_url files tr w =
      (Rejected (APIError ''Max 3 files allowed'' 400), w)"
    by (rule batchGenerateCaptions_too_many)
next
  assume "length files \<le> 3"
  then show "network (snd (batchGenerateCaptions env_url files tr w)) =
      network w @
        [\<lparr>call_url = env_url @ ''/batch-generate'', call_method = Some ''POST'',
          call_body = Some (map (\<lambda>f. (''files'', FileValue f)) files),
          call_signal = length (signals w)\<rparr>]"
    by (simp add: batchGenerateCaptions_submits makeRequest_network)
next
  assume a: "length files \<le> 3" and b: "length files' \<le> 3"
  show "fst (batchGenerateCaptions env_url files tr w) =
      fst (batchGenerateCaptions env_url files' tr w)"
    unfolding batchGenerateCaptions_submits [OF a] batchGenerateCaptions_submits [OF b] by (rule makeRequest_fst_independent)
qed

theorem C4_batch_cardinality_witness:
  "batchGenerateCaptions ''http://localhost:8000''
     [\<lparr>file_name = ''a.png'', file_size = 2048, file_type = ''image/png''\<rparr>,
      \<lparr>file_name = ''b.png'', file_size = 2048, file_type = ''image/png''\<rparr>,
      \<lparr>file_name = ''c.png'', file_size = 2048, file_type = ''image/png''\<rparr>,
      \<lparr>file_name = ''d.png'', file_size = 2048, file_type = ''image/png''\<rparr>]
     Stalls \<lparr>timers = [], signals = [], network = []\<rparr> =
     (Rejected (APIError ''Max 3 files allowed'' 400),
      \<lparr>timers = [], signals = [], network = []\<rparr>) \<and>
   network (snd (batchGenerateCaptions ''http://localhost:8000''
     [\<lparr>file_name = ''notes.txt'', file_size = 11000000, file_type = ''text/plain''\<rparr>]
     Stalls \<lparr>timers = [], signals = [], network = []\<rparr>)) =
     [\<lparr>call_url = ''http://localhost:8000/batch-generate'', call_method = Some ''POST'',
       call_body = Some [(''files'', FileValue
         \<lparr>file_name = ''notes.txt'', file_size = 11000000, file_type = ''text/plain''\<rparr>)],
       call_signal = 0\<rparr>]"
  using
    C4_batch_cardinality [of
      "[\<lparr>file_name = ''a.png'', file_size = 2048, file_type = ''image/png''\<rparr>,
        \<lparr>file_name = ''b.png'', file_size = 2048, file_type = ''image/png''\<rparr>,
        \<lparr>file_name = ''c.png'', file_size = 2048, file_type = ''image/png''\<rparr>,
        \<lparr>file_name = ''d.png'', file_size = 2048, file_type = ''image/png''\<rparr>]"
      "''http://localhost:8000''" Stalls "\<lparr>timers = [], signals = [], network = []\<rparr>" "[]"]
    C4_batch_cardinality [of
      "[\<lparr>file_name = ''notes.txt'', file_size = 11000000, file_type = ''text/plain''\<rparr>]"
      "''http://localhost:8000''" Stalls "\<lparr>timers = [], signals = [], network = []\<rparr>" "[]"]
  by simp

lemma validateFile_eq:
  "validateFile env_url f =
     (if 10485760 < file_size f
      then [''File too large ('' @ toFixed 2 (of_nat (file_size f) / 1024 / 1024) @
            ''MB). Max: 10MB'']
      else []) @
     (if \<not> startsWith (file_type f) ''image/'' then [''File must be an image''] else [])"
  by (simp add: validateFile_def API_CONFIG_simps Let_def)

lemma generateCaption_invalid:
  "validateFile env_url f \<noteq> [] \<Longrightarrow>
   generateCaption env_url f options tr w =
     (Rejected (APIError (join '', '' (validateFile env_url f)) 400), w)"
  by (simp add: generateCaption_def Let_def)

lemma size_two_places:
  assumes "10485760 < s"
  shows "toFixed 2 (of_nat s / 1024 / 1024) =
           decimal (nat \<lfloor>of_nat s / 1024 / 1024 * 100 + 1 / 2 :: rat\<rfloor> div 100) @ ''.'' @
             [digit_char (nat \<lfloor>of_nat s / 1024 / 1024 * 100 + 1 / 2 :: rat\<rfloor> div 10 mod 10),
              digit_char (nat \<lfloor>of_nat s / 1024 / 1024 * 100 + 1 / 2 :: rat\<rfloor> mod 10)]"
proof (rule toFixed_two_places)
  define y :: rat where "y = of_nat s / 1024 / 1024 * 100 + 1 / 2"
  show "0 \<le> (of_nat s / 1024 / 1024 :: rat)" by simp
  have "(of_nat 10485760 :: rat) < of_nat s"
    using assms by (rule of_nat_less_iff [THEN iffD2])
  then have "(10485760 :: rat) < of_nat s" by (simp only: of_nat_numeral)
  then have "100 \<le> y" by (simp add: y_def)
  then have "of_int 100 \<le> y" by simp
  then have "(100 :: int) \<le> \<lfloor>y\<rfloor>" by (rule le_floor_iff [THEN iffD2])
  then have "(100 :: nat) \<le> nat \<lfloor>y\<rfloor>" by linarith
  then show "100 \<le> nat \<lfloor>of_nat s / 1024 / 1024 * 100 + 1 / 2 :: rat\<rfloor>"
    unfolding y_def .
qed

lemma toFixed_11000000: "toFixed 2 (of_nat 11000000 / 1024 / 1024) = ''10.49''"
proof -
  have "\<lfloor>\<bar>(of_nat 11000000 / 1024 / 1024 :: rat)\<bar> * 10 ^ 2 + 1 / 2\<rfloor> = 1049"
    by (simp add: floor_eq_iff)
  then have n: "nat \<lfloor>\<bar>(of_nat 11000000 / 1024 / 1024 :: rat)\<bar> * 10 ^ 2 + 1 / 2\<rfloor> = 1049"
    by simp
  have d: "decimal 1049 = ''1049''"
    by (simp add: decimal.simps digit_char_def)
  show ?thesis
    unfolding toFixed_def n by (simp add: d Let_def)
qed

text \<open>
  C3. A file that is larger than 10 MiB, or whose type does not start with \<open>image/\<close>,
  makes \<open>generateCaption\<close> reject with an \<open>APIError\<close> of status 400, and the world is
  left as it was: no timer is armed and nothing is handed to \<open>fetch\<close>. The message is
  the size message alone, the type message alone, or the size message, a comma and a
  space, and the type message when both constraints are violated. The size message
  names the limit \<open>10MB\<close> and carries the size divided by \<open>1024 * 1024\<close> with two
  decimals: the digits of the integer \<open>q\<close> of hundredths that is nearest to it, with
  the point before the last two.
\<close>

theorem C3_invalid_file_rejected:
  assumes "10 * 1024 * 1024 < file_size f \<or> \<not> startsWith (file_type f) ''image/''"
  shows
    "(10 * 1024 * 1024 < file_size f \<and> startsWith (file_type f) ''image/'' \<longrightarrow>
        generateCaption env_url f options tr w =
          (Rejected (APIError
             (''File too large ('' @ toFixed 2 (of_nat (file_size f) / 1024 / 1024) @
              ''MB). Max: 10MB'') 400), w)) \<and>
     (file_size f \<le> 10 * 1024 * 1024 \<and> \<not> startsWith (file_type f) ''image/'' \<longrightarrow>
        generateCaption env_url f options tr w =
          (Rejected (APIError ''File must be an image'' 400), w)) \<and>
     (10 * 1024 * 1024 < file_size f \<and> \<not> startsWith (file_type f) ''image/'' \<longrightarrow>
        generateCaption env_url f options tr w =
          (Rejected (APIError
             (''File too large ('' @ toFixed 2 (of_nat (file_size f) / 1024 / 1024) @
              ''MB). Max: 10MB'' @ '', '' @ ''File must be an image'') 400), w)) \<and>
     (10 * 1024 * 1024 < file_size f \<longrightarrow>
        (\<exists>q. toFixed 2 (of_nat (file_size f) / 1024 / 1024) =
               decimal (q div 100) @ ''.'' @
                 [digit_char (q div 10 mod 10), digit_char (q mod 10)] \<and>
             \<bar>of_nat q / 100 - of_nat (file_size f) / 1024 / 1024\<bar> \<le> (1 / 200 :: rat)))"
proof -
  have invalid: "validateFile env_url f \<noteq> []"
    using assms by (auto simp add: validateFile_eq)
  have rejected: "generateCaption env_url f options tr w =
      (Rejected (APIError (join '', '' (validateFile env_url f)) 400), w)"
    using invalid by (rule generateCaption_invalid)
  have size_only: "generateCaption env_url f options tr w =
          (Rejected (APIError
             (''File too large ('' @ toFixed 2 (of_nat (file_size f) / 1024 / 1024) @
              ''MB). Max: 10MB'') 400), w)"
    if "10 * 1024 * 1024 < file_size f \<and> startsWith (file_type f) ''image/''"
    unfolding rejected validateFile_eq using that by simp
  have type_only: "generateCaption env_url f options tr w =
          (Rejected (APIError ''File must be an image'' 400), w)"
    if "file_size f \<le> 10 * 1024 * 1024 \<and> \<not> startsWith (file_type f) ''image/''"
    unfolding rejected validateFile_eq using that by simp
  have both: "generateCaption env_url f options tr w =
          (Rejected (APIError
             (''File too large ('' @ toFixed 2 (of_nat (file_size f) / 1024 / 1024) @
              ''MB). Max: 10MB'' @ '', '' @ ''File must be an image'') 400), w)"
    if "10 * 1024 * 1024 < file_size f \<and> \<not> startsWith (file_type f) ''image/''"
    unfolding rejected validateFile_eq using that by simp
  have places: "\<exists>q. toFixed 2 (of_nat (file_size f) / 1024 / 1024) =
               decimal (q div 100) @ ''.'' @
                 [digit_char (q div 10 mod 10), digit_char (q mod 10)] \<and>
             \<bar>of_nat q / 100 - of_nat (file_size f) / 1024 / 1024\<bar> \<le> (1 / 200 :: rat)"
    if "10 * 1024 * 1024 < file_size f"
  proof (intro exI conjI)
    have big: "10485760 < file_size f" using that by simp
    show "toFixed 2 (of_nat (file_size f) / 1024 / 1024) =
        decimal (nat \<lfloor>of_nat (file_size f) / 1024 / 1024 * 100 + 1 / 2 :: rat\<rfloor> div 100) @ ''.'' @
          [digit_char (nat \<lfloor>of_nat (file_size f) / 1024 / 1024 * 100 + 1 / 2 :: rat\<rfloor> div 10 mod 10),
           digit_char (nat \<lfloor>of_nat (file_size f) / 1024 / 1024 * 100 + 1 / 2 :: rat\<rfloor> mod 10)]"
      using big by (rule size_two_places)
    show "\<bar>of_nat (nat \<lfloor>of_nat (file_size f) / 1024 / 1024 * 100 + 1 / 2 :: rat\<rfloor>) / 100 -
        of_nat (file_size f) / 1024 / 1024\<bar> \<le> (1 / 200 :: rat)"
      by (rule nearest_hundredth) simp
  qed
  show ?thesis
    using size_only type_only both places by blast
qed

theorem C3_invalid_file_rejected_witness:
  "generateCaption ''http://localhost:8000''
     \<lparr>file_name = ''notes.txt'', file_size = 11000000, file_type = ''text/plain''\<rparr>
     \<lparr>opt_method = None, opt_beamWidth = None\<rparr> Stalls
     \<lparr>timers = [], signals = [], network = []\<rparr> =
     (Rejected (APIError ''File too large (10.49MB). Max: 10MB, File must be an image'' 400),
      \<lparr>timers = [], signals = [], network = []\<rparr>)"
proof -
  let ?f = "\<lparr>file_name = ''notes.txt'', file_size = 11000000, file_type = ''text/plain''\<rparr>"
  have violated: "10 * 1024 * 1024 < file_size ?f \<and> \<not> startsWith (file_type ?f) ''image/''"
    by (simp add: startsWith_def)
  then have h: "10 * 1024 * 1024 < file_size ?f \<or> \<not> startsWith (file_type ?f) ''image/''"
    by (rule conjunct1 [THEN disjI1])
  note both = C3_invalid_file_rejected [OF h, THEN conjunct2, THEN conjunct2, THEN conjunct1,
      rule_format, OF violated]
  have s: "file_size ?f = 11000000"
    by simp
  show ?thesis
    unfolding both s toFixed_11000000 by simp
qed

lemma int_of_Safe: "- (2 ^ 53) \<le> i \<Longrightarrow> i \<le> 2 ^ 53 \<Longrightarrow> int_of (Safe i) = i"
  by (simp add: Safe_inverse)

lemma int_of_zero: "int_of i = 0 \<longleftrightarrow> i = Safe 0"
proof
  assume "int_of i = 0"
  then have "Safe (int_of i) = Safe 0" by simp
  then show "i = Safe 0" by (simp only: int_of_inverse)
next
  assume "i = Safe 0"
  then show "int_of i = 0" by (simp add: int_of_Safe)
qed

lemma number_truthy_iff: "number_truthy b \<longleftrightarrow> b \<noteq> Integer (Safe 0) \<and> b \<noteq> NaN"
  by (cases b) (simp_all add: int_of_zero)

lemma generateCaption_valid:
  assumes "file_size f \<le> 10485760" and "startsWith (file_type f) ''image/''"
  shows "generateCaption env_url f options tr w =
     makeRequest env_url ''/generate-caption''
       \<lparr>init_method = Some ''POST'',
        init_body = Some
          ([(''file'', FileValue f)] @
           (case opt_method options of
              Some m \<Rightarrow> if m \<noteq> '''' then [(''method'', StringValue m)] else []
            | None \<Rightarrow> []) @
           (case opt_beamWidth options of
              Some b \<Rightarrow>
                if number_truthy b then [(''beam_width'', StringValue (Number_toString b))]
                else []
            | None \<Rightarrow> []))\<rparr> tr w"
proof -
  have "validateFile env_url f = []" using assms by (simp add: validateFile_eq)
  then show ?thesis
    by (simp add: generateCaption_def Let_def append_def split: option.split)
qed

text \<open>
  C7, as the code has it. For a file that passes the validation, \<open>generateCaption\<close>
  hands one call to \<open>fetch\<close>: a POST to the base URL followed by \<open>/generate-caption\<close>,
  whose form data holds the file under \<open>file\<close>, then \<open>method\<close> when the option is
  supplied and is not the empty string, then \<open>beam_width\<close> when the option is supplied
  and is neither 0 nor \<open>NaN\<close>. The value of \<open>beam_width\<close> is what \<open>toString\<close> gives for
  the number: the decimal numeral of an integer of magnitude at most \<open>2^53\<close>.
\<close>

theorem C7_caption_request:
  assumes "file_size f \<le> 10 * 1024 * 1024" and "startsWith (file_type f) ''image/''"
  shows "network (snd (generateCaption env_url f options tr w)) =
     network w @
       [\<lparr>call_url = env_url @ ''/generate-caption'', call_method = Some ''POST'',
         call_body = Some
           ([(''file'', FileValue f)] @
            (case opt_method options of
               Some m \<Rightarrow> if m \<noteq> '''' then [(''method'', StringValue m)] else []
             | None \<Rightarrow> []) @
            (case opt_beamWidth options of
               Some b \<Rightarrow>
                 if b \<noteq> Integer (Safe 0) \<and> b \<noteq> NaN
                 then [(''beam_width'', StringValue (Number_toString b))] else []
             | None \<Rightarrow> [])),
         call_signal = length (signals w)\<rparr>]"
proof -
  have "file_size f \<le> 10485760" using assms(1) by simp
  then show ?thesis
    using assms(2)
    by (simp add: generateCaption_valid makeRequest_network number_truthy_iff
        split: option.split)
qed

theorem C7_caption_request_witness:
  "network (snd (generateCaption ''http://localhost:8000''
     \<lparr>file_name = ''a.png'', file_size = 2048, file_type = ''image/png''\<rparr>
     \<lparr>opt_method = Some ''beam_search'', opt_beamWidth = Some (Integer (Safe 3))\<rparr> Stalls
     \<lparr>timers = [], signals = [], network = []\<rparr>)) =
     [\<lparr>call_url = ''http://localhost:8000/generate-caption'', call_method = Some ''POST'',
       call_body = Some
         [(''file'', FileValue \<lparr>file_name = ''a.png'', file_size = 2048, file_type = ''image/png''\<rparr>),
          (''method'', StringValue ''beam_search''),
          (''beam_width'', StringValue ''3'')],
       call_signal = 0\<rparr>]"
proof -
  have s: "startsWith ''image/png'' ''image/''"
    by (simp add: startsWith_def)
  have t: "Integer (Safe 3) \<noteq> Integer (Safe 0)"
    using number_truthy_iff [of "Integer (Safe 3)"] by (simp add: int_of_Safe)
  show ?thesis
    using C7_caption_request [of
        "\<lparr>file_name = ''a.png'', file_size = 2048, file_type = ''image/png''\<rparr>"
        "''http://localhost:8000''"
        "\<lparr>opt_method = Some ''beam_search'', opt_beamWidth = Some (Integer (Safe 3))\<rparr>"
        Stalls "\<lparr>timers = [], signals = [], network = []\<rparr>"] s t
    by (simp add: int_of_Safe decimal_3)
qed

theorem C7_counterexample:
  "network (snd (generateCaption ''http://localhost:8000''
     \<lparr>file_name = ''a.png'', file_size = 2048, file_type = ''image/png''\<rparr>
     \<lparr>opt_method = Some ''greedy_search'', opt_beamWidth = Some (Integer (Safe 0))\<rparr> Stalls
     \<lparr>timers = [], signals = [], network = []\<rparr>)) =
     [\<lparr>call_url = ''http://localhost:8000/generate-caption'', call_method = Some ''POST'',
       call_body = Some
         [(''file'', FileValue \<lparr>file_name = ''a.png'', file_size = 2048, file_type = ''image/png''\<rparr>),
          (''method'', StringValue ''greedy_search'')],
       call_signal = 0\<rparr>]"
proof -
  have s: "startsWith ''image/png'' ''image/''"
    by (simp add: startsWith_def)
  show ?thesis
    using s by (simp add: generateCaption_valid makeRequest_network number_truthy_iff)
qed

text \<open>
  C6. When the response has a 2xx status, a body that decodes is what the operation
  resolves to, unchanged; and when \<open>response.json()\<close> rejects, the operation rejects with
  that very exception, not with an \<open>APIError\<close>. A failed decode is a \<open>SyntaxError\<close>; the
  statement holds for every exception that is not named \<open>AbortError\<close>.
\<close>

theorem C6_success_body:
  assumes "ok r"
  shows "(body r = Decoded v \<longrightarrow>
            fst (makeRequest env_url url options (Responds r) w) = Fulfilled v) \<and>
         (body r = BodyError name message \<longrightarrow> name \<noteq> ''AbortError'' \<longrightarrow>
            fst (makeRequest env_url url options (Responds r) w) =
              Rejected (Exception name message) \<and>
            \<not> is_APIError (Exception name message))"
  using assms by (simp add: makeRequest_Responds on_response_ok)

theorem C6_success_body_witness:
  "fst (makeRequest ''http://localhost:8000'' ''/generate-caption''
          \<lparr>init_method = Some ''POST'', init_body = Some []\<rparr>
          (Responds \<lparr>status = 200, body = BodyError ''SyntaxError'' ''Unexpected token''\<rparr>)
          \<lparr>timers = [], signals = [], network = []\<rparr>) =
     Rejected (Exception ''SyntaxError'' ''Unexpected token'') \<and>
   fst (makeRequest ''http://localhost:8000'' ''/generate-caption''
          \<lparr>init_method = Some ''POST'', init_body = Some []\<rparr>
          (Responds \<lparr>status = 200, body = Decoded (JObj [(''caption'', JStr ''a dog'')])\<rparr>)
          \<lparr>timers = [], signals = [], network = []\<rparr>) =
     Fulfilled (JObj [(''caption'', JStr ''a dog'')])"
proof -
  have a: "ok \<lparr>status = 200, body = BodyError ''SyntaxError'' ''Unexpected token''\<rparr>"
    by (simp add: ok_def)
  have b: "ok \<lparr>status = 200, body = Decoded (JObj [(''caption'', JStr ''a dog'')])\<rparr>"
    by (simp add: ok_def)
  show ?thesis
    using C6_success_body [OF a, where name = "''SyntaxError''"
        and message = "''Unexpected token''" and env_url = "''http://localhost:8000''"
        and url = "''/generate-caption''"
        and options = "\<lparr>init_method = Some ''POST'', init_body = Some []\<rparr>"
        and w = "\<lparr>timers = [], signals = [], network = []\<rparr>"]
      C6_success_body [OF b, where v = "JObj [(''caption'', JStr ''a dog'')]"
        and env_url = "''http://localhost:8000''" and url = "''/generate-caption''"
        and options = "\<lparr>init_method = Some ''POST'', init_body = Some []\<rparr>"
        and w = "\<lparr>timers = [], signals = [], network = []\<rparr>"]
    by simp
qed

lemma decimal_503: "decimal 503 = ''503''"
  by (simp add: decimal.simps digit_char_def)

lemma decimal_408: "decimal 408 = ''408''"
  by (simp add: decimal.simps digit_char_def)

lemma makeRequest_failed_response:
  assumes "\<not> ok r"
  shows "fst (makeRequest env_url url options (Responds r) w) = on_response r"
proof (cases "on_response r")
  case (Rejected e)
  then have "error_name e \<noteq> ''AbortError''"
    using on_response_failed [OF assms Rejected] by auto
  then show ?thesis using Rejected by (simp add: makeRequest_Responds)
qed (simp_all add: makeRequest_Responds)

text \<open>
  C5, as the code has it. For a response whose status is not 2xx and whose body read
  settles, the operation rejects with an \<open>APIError\<close> that carries the status of the
  response, in each of these cases. The message is \<open>HTTP\<close>, a space and the decimal
  status when the body does not parse, when the parsed body is not \<open>null\<close> and has no
  \<open>detail\<close>, and when its \<open>detail\<close> is falsy (the empty string, 0, false, null). The
  message is the \<open>detail\<close> converted to a string when the \<open>detail\<close> is truthy and the
  conversion succeeds: a non-empty string is the message as it is, \<open>true\<close> gives
  \<open>true\<close>, a number gives what \<open>toString\<close> prints for it. Not covered: a body that is
  the JSON value \<open>null\<close>, and a truthy \<open>detail\<close> whose conversion to a string throws (an
  object with an own property \<open>toString\<close>, or an array that holds one).
\<close>

theorem C5_error_response:
  assumes "\<not> ok r"
  shows
    "(body r = BodyError name message \<longrightarrow>
        fst (makeRequest env_url url options (Responds r) w) =
          Rejected (APIError (''HTTP '' @ decimal (status r)) (status r))) \<and>
     (body r = Decoded b \<longrightarrow> detail b = Inr None \<longrightarrow>
        fst (makeRequest env_url url options (Responds r) w) =
          Rejected (APIError (''HTTP '' @ decimal (status r)) (status r))) \<and>
     (body r = Decoded b \<longrightarrow> detail b = Inr (Some d) \<longrightarrow> \<not> truthy d \<longrightarrow>
        fst (makeRequest env_url url options (Responds r) w) =
          Rejected (APIError (''HTTP '' @ decimal (status r)) (status r))) \<and>
     (body r = Decoded b \<longrightarrow> detail b = Inr (Some d) \<longrightarrow> truthy d \<longrightarrow> ToString d = Inr m \<longrightarrow>
        fst (makeRequest env_url url options (Responds r) w) =
          Rejected (APIError m (status r))) \<and>
     (body r = Decoded b \<longrightarrow> detail b = Inr (Some (JStr m)) \<longrightarrow> m \<noteq> '''' \<longrightarrow>
        fst (makeRequest env_url url options (Responds r) w) =
          Rejected (APIError m (status r))) \<and>
     (body r = Decoded b \<longrightarrow> detail b = Inr (Some (JBool True)) \<longrightarrow>
        fst (makeRequest env_url url options (Responds r) w) =
          Rejected (APIError ''true'' (status r))) \<and>
     (body r = Decoded b \<longrightarrow> detail b = Inr (Some (JNum n)) \<longrightarrow> n \<noteq> Integer (Safe 0) \<longrightarrow>
        n \<noteq> NaN \<longrightarrow>
        fst (makeRequest env_url url options (Responds r) w) =
          Rejected (APIError (Number_toString n) (status r)))"
  using assms
  by (simp add: makeRequest_failed_response on_response_unparsed on_response_decoded
      new_APIError_def number_truthy_iff)

theorem C5_error_response_witness:
  "fst (makeRequest ''http://localhost:8000'' ''/generate-caption''
          \<lparr>init_method = Some ''POST'', init_body = Some []\<rparr>
          (Responds \<lparr>status = 503, body = BodyError ''SyntaxError'' ''Unexpected token''\<rparr>)
          \<lparr>timers = [], signals = [], network = []\<rparr>) =
     Rejected (APIError ''HTTP 503'' 503) \<and>
   fst (makeRequest ''http://localhost:8000'' ''/generate-caption''
          \<lparr>init_method = Some ''POST'', init_body = Some []\<rparr>
          (Responds \<lparr>status = 500,
             body = Decoded (JObj [(''detail'', JStr ''model unavailable'')])\<rparr>)
          \<lparr>timers = [], signals = [], network = []\<rparr>) =
     Rejected (APIError ''model unavailable'' 500) \<and>
   fst (makeRequest ''http://localhost:8000'' ''/generate-caption''
          \<lparr>init_method = Some ''POST'', init_body = Some []\<rparr>
          (Responds \<lparr>status = 500,
             body = Decoded (JObj [(''detail'', JNum (Integer (Safe 3)))])\<rparr>)
          \<lparr>timers = [], signals = [], network = []\<rparr>) =
     Rejected (APIError ''3'' 500)"
proof -
  have a: "\<not> ok \<lparr>status = 503, body = BodyError ''SyntaxError'' ''Unexpected token''\<rparr>"
    by (simp add: ok_def)
  have b: "\<not> ok \<lparr>status = 500,
      body = Decoded (JObj [(''detail'', JStr ''model unavailable'')])\<rparr>"
    by (simp add: ok_def)
  have c: "\<not> ok \<lparr>status = 500,
      body = Decoded (JObj [(''detail'', JNum (Integer (Safe 3)))])\<rparr>"
    by (simp add: ok_def)
  have three: "Integer (Safe 3) \<noteq> Integer (Safe 0)"
    using number_truthy_iff [of "Integer (Safe 3)"] by (simp add: int_of_Safe)
  show ?thesis
    using C5_error_response [where r = "\<lparr>status = 503,
          body = BodyError ''SyntaxError'' ''Unexpected token''\<rparr>"
        and name = "''SyntaxError''" and message = "''Unexpected token''"
        and env_url = "''http://localhost:8000''" and url = "''/generate-caption''"
        and options = "\<lparr>init_method = Some ''POST'', init_body = Some []\<rparr>"
        and w = "\<lparr>timers = [], signals = [], network = []\<rparr>", OF a, THEN conjunct1]
      C5_error_response [where r = "\<lparr>status = 500,
          body = Decoded (JObj [(''detail'', JStr ''model unavailable'')])\<rparr>"
        and b = "JObj [(''detail'', JStr ''model unavailable'')]"
        and m = "''model unavailable''"
        and env_url = "''http://localhost:8000''" and url = "''/generate-caption''"
        and options = "\<lparr>init_method = Some ''POST'', init_body = Some []\<rparr>"
        and w = "\<lparr>timers = [], signals = [], network = []\<rparr>", OF b,
        THEN conjunct2, THEN conjunct2, THEN conjunct2, THEN conjunct2, THEN conjunct1]
      C5_error_response [where r = "\<lparr>status = 500,
          body = Decoded (JObj [(''detail'', JNum (Integer (Safe 3)))])\<rparr>"
        and b = "JObj [(''detail'', JNum (Integer (Safe 3)))]"
        and n = "Integer (Safe 3)"
        and env_url = "''http://localhost:8000''" and url = "''/generate-caption''"
        and options = "\<lparr>init_method = Some ''POST'', init_body = Some []\<rparr>"
        and w = "\<lparr>timers = [], signals = [], network = []\<rparr>", OF c,
        THEN conjunct2, THEN conjunct2, THEN conjunct2, THEN conjunct2, THEN conjunct2,
        THEN conjunct2]
      three
    by (simp add: decimal_503 int_of_Safe decimal_3)
qed

theorem C5_counterexample:
  "detail (JObj [(''detail'', JStr '''')]) = Inr (Some (JStr '''')) \<and>
   fst (makeRequest ''http://localhost:8000'' ''/generate-caption''
          \<lparr>init_method = Some ''POST'', init_body = Some []\<rparr>
          (Responds \<lparr>status = 503, body = Decoded (JObj [(''detail'', JStr '''')])\<rparr>)
          \<lparr>timers = [], signals = [], network = []\<rparr>) =
     Rejected (APIError ''HTTP 503'' 503)"
proof -
  have a: "\<not> ok \<lparr>status = 503, body = Decoded (JObj [(''detail'', JStr '''')])\<rparr>"
    by (simp add: ok_def)
  show ?thesis
    by (simp add: makeRequest_failed_response [OF a] on_response_decoded [OF a] decimal_503)
qed

text \<open>
  C2, as the code has it. When the promise of \<open>fetch\<close> has not settled by the time the
  timer fires, the timer's callback aborts the signal that the call is bound to, and
  the operation rejects with the \<open>APIError\<close> of message \<open>Request timeout\<close> and status
  408; the timer had been armed with the configured timeout, 60000 ms. An \<open>APIError\<close>
  of status 408 comes from this path, from a response whose own status is 408, or from
  another rejection named \<open>AbortError\<close>, and from nothing else.
\<close>

theorem C2_timeout:
  "fst (makeRequest env_url url options Stalls w) =
     Rejected (APIError ''Request timeout'' 408) \<and>
   timers (snd (makeRequest env_url url options Stalls w)) =
     timers w @ [Fired (timeout (API_CONFIG env_url))] \<and>
   timeout (API_CONFIG env_url) = 60000 \<and>
   call_signal (last (network (snd (makeRequest env_url url options Stalls w)))) =
     length (signals w) \<and>
   aborted (length (signals w)) (snd (makeRequest env_url url options Stalls w)) \<and>
   (fst (makeRequest env_url url options tr w) = Rejected (APIError m 408) \<longrightarrow>
      tr = Stalls \<or>
      (\<exists>r. tr = Responds r \<and> \<not> ok r \<and> status r = 408) \<or>
      (\<exists>msg. tr = FetchRejects ''AbortError'' msg) \<or>
      (\<exists>r msg. tr = Responds r \<and> ok r \<and> body r = BodyError ''AbortError'' msg))"
proof -
  have only: "tr = Stalls \<or>
      (\<exists>r. tr = Responds r \<and> \<not> ok r \<and> status r = 408) \<or>
      (\<exists>msg. tr = FetchRejects ''AbortError'' msg) \<or>
      (\<exists>r msg. tr = Responds r \<and> ok r \<and> body r = BodyError ''AbortError'' msg)"
    if res: "fst (makeRequest env_url url options tr w) = Rejected (APIError m 408)"
  proof (cases tr)
    case (Responds r)
    show ?thesis
    proof (cases "ok r")
      case True
      then show ?thesis using res Responds
        by (cases "body r")
          (auto simp add: makeRequest_Responds on_response_ok split: if_splits)
    next
      case False
      then have "on_response r = Rejected (APIError m 408)"
        using res Responds by (simp add: makeRequest_failed_response)
      then have "status r = 408"
        using on_response_failed [OF False, of "APIError m 408"] by simp
      then show ?thesis using False Responds by simp
    qed
  next
    case (FetchRejects name message)
    then show ?thesis using res
      by (simp add: makeRequest_FetchRejects split: if_splits)
  next
    case Stalls
    then show ?thesis by simp
  qed
  have sig: "aborted (length (signals w)) (snd (makeRequest env_url url options Stalls w))"
    by (simp add: aborted_def makeRequest_signals)
  have net: "call_signal (last (network (snd (makeRequest env_url url options Stalls w)))) =
     length (signals w)"
    by (simp add: makeRequest_network)
  show ?thesis
    using only sig net
    by (simp add: makeRequest_Stalls makeRequest_timers API_CONFIG_simps)
qed

theorem C2_timeout_witness:
  "fst (makeRequest ''http://localhost:8000'' ''/health''
          \<lparr>init_method = None, init_body = None\<rparr> Stalls
          \<lparr>timers = [], signals = [], network = []\<rparr>) =
     Rejected (APIError ''Request timeout'' 408) \<and>
   aborted 0 (snd (makeRequest ''http://localhost:8000'' ''/health''
          \<lparr>init_method = None, init_body = None\<rparr> Stalls
          \<lparr>timers = [], signals = [], network = []\<rparr>))"
  using C2_timeout [where env_url = "''http://localhost:8000''" and url = "''/health''"
      and options = "\<lparr>init_method = None, init_body = None\<rparr>"
      and w = "\<lparr>timers = [], signals = [], network = []\<rparr>"
      and tr = Stalls and m = "''Request timeout''"]
  by simp

theorem C2_counterexample:
  "fst (makeRequest ''http://localhost:8000'' ''/health''
          \<lparr>init_method = None, init_body = None\<rparr>
          (Responds \<lparr>status = 408, body = BodyError ''SyntaxError'' ''Unexpected token''\<rparr>)
          \<lparr>timers = [], signals = [], network = []\<rparr>) =
     Rejected (APIError ''HTTP 408'' 408) \<and>
   timers (snd (makeRequest ''http://localhost:8000'' ''/health''
          \<lparr>init_method = None, init_body = None\<rparr>
          (Responds \<lparr>status = 408, body = BodyError ''SyntaxError'' ''Unexpected token''\<rparr>)
          \<lparr>timers = [], signals = [], network = []\<rparr>)) = [Cleared] \<and>
   signals (snd (makeRequest ''http://localhost:8000'' ''/health''
          \<lparr>init_method = None, init_body = None\<rparr>
          (Responds \<lparr>status = 408, body = BodyError ''SyntaxError'' ''Unexpected token''\<rparr>)
          \<lparr>timers = [], signals = [], network = []\<rparr>)) = [False]"
proof -
  have a: "\<not> ok \<lparr>status = 408, body = BodyError ''SyntaxError'' ''Unexpected token''\<rparr>"
    by (simp add: ok_def)
  show ?thesis
    by (simp add: makeRequest_failed_response [OF a] on_response_unparsed [OF a]
        makeRequest_timers makeRequest_signals decimal_408)
qed

lemma makeRequest_outcomes:
  assumes "\<forall>r. tr = Responds r \<and> \<not> ok r \<longrightarrow> detail_converts (body r)"
    and "p = fst (makeRequest env_url url options tr w)"
  shows
    "(\<exists>v r. p = Fulfilled v \<and> tr = Responds r \<and> ok r \<and> body r = Decoded v) \<or>
     (\<exists>m s. p = Rejected (APIError m s)) \<or>
     (\<exists>n m. p = Rejected (Exception n m) \<and> n \<noteq> ''AbortError'' \<and>
        (tr = FetchRejects n m \<or> (\<exists>r. tr = Responds r \<and> ok r \<and> body r = BodyError n m))) \<or>
     (p = Pending \<and> (\<exists>r. tr = Responds r \<and> body r = BodyHangs))"
proof (cases tr)
  case (Responds r)
  show ?thesis
  proof (cases "ok r")
    case True
    then show ?thesis using Responds assms(2)
      by (cases "body r") (simp_all add: makeRequest_Responds on_response_ok)
  next
    case False
    then have conv: "detail_converts (body r)" using assms(1) Responds by simp
    have p: "p = on_response r"
      using False Responds assms(2) by (simp add: makeRequest_failed_response)
    show ?thesis
    proof (cases "on_response r")
      case (Fulfilled v)
      then show ?thesis using False by (simp add: on_response_def split: body_outcome.splits sum.splits)
    next
      case (Rejected e)
      then show ?thesis using on_response_converts [OF False conv Rejected] p by auto
    next
      case Pending
      then have "body r = BodyHangs"
        using False by (simp add: on_response_def Let_def split: body_outcome.splits sum.splits)
      then show ?thesis using Pending p Responds by simp
    qed
  qed
next
  case (FetchRejects name message)
  then show ?thesis using assms(2) by (simp add: makeRequest_FetchRejects)
next
  case Stalls
  then show ?thesis using assms(2) by (simp add: makeRequest_Stalls)
qed

lemma generateCaption_cases:
  "(\<exists>m. fst (generateCaption env_url f options tr w) = Rejected (APIError m 400)) \<or>
   (\<exists>init. fst (generateCaption env_url f options tr w) =
      fst (makeRequest env_url ''/generate-caption'' init tr w))"
  by (simp add: generateCaption_def Let_def) blast

lemma batchGenerateCaptions_cases:
  "(\<exists>m. fst (batchGenerateCaptions env_url files tr w) = Rejected (APIError m 400)) \<or>
   (\<exists>init. fst (batchGenerateCaptions env_url files tr w) =
      fst (makeRequest env_url ''/batch-generate'' init tr w))"
  by (simp add: batchGenerateCaptions_def Let_def) blast

text \<open>
  C1, as the code has it. Whatever the input, the world and the transport, each of
  \<open>generateCaption\<close>, \<open>batchGenerateCaptions\<close> and \<open>checkHealth\<close> comes to exactly one
  of four ends. It resolves to the decoded body of a 2xx response. It rejects with an
  \<open>APIError\<close>. It rejects with an exception that is not an \<open>APIError\<close>, passed on as it
  was raised: the rejection of \<open>fetch\<close> (a network fault), or the rejection of
  \<open>response.json()\<close> on a 2xx response (a body that does not decode). Or it stays
  pending, when the body of the response never arrives. (Failed responses whose body
  is the JSON value \<open>null\<close>, or whose \<open>detail\<close> does not convert to a string, are not
  covered.)
\<close>

theorem C1_outcomes:
  assumes "p \<in> {fst (generateCaption env_url f options tr w),
                 fst (batchGenerateCaptions env_url files tr w),
                 fst (checkHealth env_url tr w)}"
    and "\<forall>r. tr = Responds r \<and> \<not> ok r \<longrightarrow> detail_converts (body r)"
  shows
    "(\<exists>v r. p = Fulfilled v \<and> tr = Responds r \<and> ok r \<and> body r = Decoded v) \<or>
     (\<exists>m s. p = Rejected (APIError m s)) \<or>
     (\<exists>n m. p = Rejected (Exception n m) \<and> n \<noteq> ''AbortError'' \<and>
        (tr = FetchRejects n m \<or> (\<exists>r. tr = Responds r \<and> ok r \<and> body r = BodyError n m))) \<or>
     (p = Pending \<and> (\<exists>r. tr = Responds r \<and> body r = BodyHangs))"
proof -
  consider
      (validation) m where "p = Rejected (APIError m 400)"
    | (request) url init where "p = fst (makeRequest env_url url init tr w)"
    using assms(1) generateCaption_cases [of env_url f options tr w]
      batchGenerateCaptions_cases [of env_url files tr w]
    by (auto simp add: checkHealth_def)
  then show ?thesis
  proof cases
    case validation
    then show ?thesis by simp
  next
    case request
    then show ?thesis by (rule makeRequest_outcomes [OF assms(2)])
  qed
qed

theorem C1_outcomes_witness:
  "detail_converts (Decoded (JObj [(''detail'', JStr ''model unavailable'')])) \<and>
   fst (generateCaption ''http://localhost:8000''
          \<lparr>file_name = ''a.png'', file_size = 2048, file_type = ''image/png''\<rparr>
          \<lparr>opt_method = None, opt_beamWidth = None\<rparr>
          (Responds \<lparr>status = 500,
             body = Decoded (JObj [(''detail'', JStr ''model unavailable'')])\<rparr>)
          \<lparr>timers = [], signals = [], network = []\<rparr>) =
     Rejected (APIError ''model unavailable'' 500)"
proof -
  let ?r = "\<lparr>status = 500, body = Decoded (JObj [(''detail'', JStr ''model unavailable'')])\<rparr>"
  let ?p = "fst (generateCaption ''http://localhost:8000''
          \<lparr>file_name = ''a.png'', file_size = 2048, file_type = ''image/png''\<rparr>
          \<lparr>opt_method = None, opt_beamWidth = None\<rparr> (Responds ?r)
          \<lparr>timers = [], signals = [], network = []\<rparr>)"
  have member: "?p \<in>
      {?p,
       fst (batchGenerateCaptions ''http://localhost:8000'' [] (Responds ?r)
              \<lparr>timers = [], signals = [], network = []\<rparr>),
       fst (checkHealth ''http://localhost:8000'' (Responds ?r)
              \<lparr>timers = [], signals = [], network = []\<rparr>)}"
    by simp
  have converts: "detail_converts (Decoded (JObj [(''detail'', JStr ''model unavailable'')]))"
    by (simp add: detail_converts_def)
  then have covered: "\<forall>r. Responds ?r = Responds r \<and> \<not> ok r \<longrightarrow> detail_converts (body r)"
    by auto
  have failed: "\<not> ok ?r"
    by (simp add: ok_def)
  have image: "startsWith ''image/png'' ''image/''"
    by (simp add: startsWith_def)
  have "?p = Rejected (APIError ''model unavailable'' 500)"
    using C1_outcomes [OF member covered] image
    by (simp add: generateCaption_valid makeRequest_failed_response [OF failed]
        on_response_decoded [OF failed] new_APIError_JStr)
  then show ?thesis using converts by simp
qed

theorem C1_counterexample:
  "fst (checkHealth ''http://localhost:8000''
          (FetchRejects ''TypeError'' ''Failed to fetch'')
          \<lparr>timers = [], signals = [], network = []\<rparr>) =
     Rejected (Exception ''TypeError'' ''Failed to fetch'') \<and>
   \<not> is_APIError (Exception ''TypeError'' ''Failed to fetch'')"
  by (simp add: checkHealth_def makeRequest_FetchRejects)

end
